theory Spec2Isabelle
  imports Complex_Main "HOL-Library.Log_Nat"
begin

section \<open>Data model\<close>

text \<open>
  The program is \<^verbatim>\<open>catfacts_analyzer.py\<close>. A fact is a dictionary with the keys
  \<^verbatim>\<open>fact\<close> (a string) and \<^verbatim>\<open>length\<close> (an integer); the program trusts this shape.
  Python integers are unbounded, so \<open>length\<close> is an \<open>int\<close>. The field names carry
  a suffix because \<open>fact\<close> and \<open>length\<close> are constants of HOL.
\<close>

record Fact =
  fact_str :: string
  length_int :: int

text \<open>The exceptions that the modelled operations raise.\<close>

datatype error =
    ValueError
  | StatisticsError
  | OverflowError
  | TypeError
  | KeyError
  | AttributeError
  | JSONDecodeError
  | FileNotFoundError
  | FileExistsError
  | IsADirectoryError
  | PermissionError

text \<open>
  A Python number as the program meets it: an \<open>int\<close>, or a \<open>float\<close>. A finite
  binary64 value is a rational number, and the model keeps that rational exactly;
  the program never produces an infinity or a NaN (conversions that would overflow raise).
\<close>

datatype number = PyInt int | PyFloat rat

fun num_val :: "number \<Rightarrow> rat" where
  "num_val (PyInt i) = of_int i"
| "num_val (PyFloat r) = r"

text \<open>The dictionary that \<^verbatim>\<open>compute_statistics\<close> returns, one field per key.\<close>

record statistics =
  count :: int
  min_length :: int
  max_length :: int
  avg_length :: number

section \<open>Python's numeric library, as far as the program uses it\<close>

subsection \<open>Conversion to binary64\<close>

text \<open>Rounding to the nearest integer, ties to the even one.\<close>

definition round_half_even :: "rat \<Rightarrow> int" where
  "round_half_even x =
     (let f = \<lfloor>x\<rfloor>; d = x - of_int f
      in if d < 1 / 2 then f
         else if 1 / 2 < d then f + 1
         else if even f then f else f + 1)"

text \<open>
  \<open>ilog2 q\<close> is the binary exponent of a non-zero rational: the integer \<open>k\<close> with
  \<open>2 ^ k \<le> |q| < 2 ^ (k + 1)\<close>, found from the bit lengths of numerator and denominator.
\<close>

definition ilog2 :: "rat \<Rightarrow> int" where
  "ilog2 q =
     (let (a, b) = quotient_of \<bar>q\<bar>;
          k = bitlen a - bitlen b
      in if 2 powi k \<le> \<bar>q\<bar> then k else k - 1)"

text \<open>
  \<^verbatim>\<open>float(Fraction)\<close> and \<^verbatim>\<open>float(int)\<close>: the nearest binary64 value (53 significant
  bits, least exponent \<open>-1074\<close>, ties to even), and \<^verbatim>\<open>OverflowError\<close> when the rounded
  value reaches \<open>2 ^ 1024\<close>.
\<close>

definition float_of_rat :: "rat \<Rightarrow> error + rat" where
  "float_of_rat q =
     (if q = 0 then Inr 0
      else
        let e = max (ilog2 q - 52) (- 1074);
            m = round_half_even (\<bar>q\<bar> / 2 powi e);
            v = of_int m * 2 powi e
        in if 2 ^ 1024 \<le> v then Inl OverflowError else Inr (sgn q * v))"

subsection \<open>\<^verbatim>\<open>min\<close>, \<^verbatim>\<open>max\<close> and \<^verbatim>\<open>statistics.mean\<close>\<close>

text \<open>\<^verbatim>\<open>min\<close> and \<^verbatim>\<open>max\<close> of a list raise \<^verbatim>\<open>ValueError\<close> on the empty list.\<close>

definition py_min :: "int list \<Rightarrow> error + int" where
  "py_min xs = (case xs of [] \<Rightarrow> Inl ValueError | x # r \<Rightarrow> Inr (fold min r x))"

definition py_max :: "int list \<Rightarrow> error + int" where
  "py_max xs = (case xs of [] \<Rightarrow> Inl ValueError | x # r \<Rightarrow> Inr (fold max r x))"

text \<open>
  \<^verbatim>\<open>statistics.mean\<close> on integers: the sum is formed exactly and divided by the
  number of data points as a fraction; a fraction whose denominator is 1 is returned as an
  \<open>int\<close>, any other is converted to a \<open>float\<close>. No data raises \<^verbatim>\<open>StatisticsError\<close>.
\<close>

definition mean :: "int list \<Rightarrow> error + number" where
  "mean data =
     (if data = [] then Inl StatisticsError
      else
        let q = Fract (sum_list data) (int (length data))
        in if snd (quotient_of q) = 1 then Inr (PyInt (fst (quotient_of q)))
           else (case float_of_rat q of Inl e \<Rightarrow> Inl e | Inr r \<Rightarrow> Inr (PyFloat r)))"

text \<open>The arithmetic mean of the data as an exact rational, to compare \<open>mean\<close> with.\<close>

definition exact_mean :: "int list \<Rightarrow> rat" where
  "exact_mean xs = of_int (sum_list xs) / of_int (int (length xs))"

section \<open>The statistics calculator\<close>

text \<open>
  Lines 60 to 65 of \<^verbatim>\<open>compute_statistics\<close>: the dictionary display evaluates its
  values in order (\<^verbatim>\<open>len\<close>, \<^verbatim>\<open>min\<close>, \<^verbatim>\<open>max\<close>, \<^verbatim>\<open>mean\<close>); the first exception
  ends the call.
\<close>

definition summarize :: "int list \<Rightarrow> error + statistics" where
  "summarize lengths =
     (case py_min lengths of Inl e \<Rightarrow> Inl e | Inr mn \<Rightarrow>
     (case py_max lengths of Inl e \<Rightarrow> Inl e | Inr mx \<Rightarrow>
     (case mean lengths of Inl e \<Rightarrow> Inl e | Inr av \<Rightarrow>
        Inr \<lparr>count = int (length lengths), min_length = mn,
             max_length = mx, avg_length = av\<rparr>)))"

text \<open>\<^verbatim>\<open>compute_statistics\<close> on the list of facts, read as values.\<close>

definition compute_statistics :: "Fact list \<Rightarrow> error + statistics" where
  "compute_statistics facts = (let lengths = map length_int facts in summarize lengths)"

subsection \<open>The same function over a store\<close>

text \<open>
  In Python the argument is a reference to a list object whose elements are references
  to dictionaries. To say what a call does to these objects, the store is a list of cells
  addressed by position; allocation appends a cell. \<^verbatim>\<open>compute_statistics\<close> reads the
  list and the \<^verbatim>\<open>length\<close> entry of every element, allocates the list \<^verbatim>\<open>lengths\<close>
  and, when no exception is raised, the result dictionary, whose address it returns.
\<close>

datatype cell =
    FactCell Fact
  | ListCell "nat list"
  | IntsCell "int list"
  | StatsCell statistics

type_synonym store = "cell list"

fun read_lengths :: "store \<Rightarrow> nat list \<Rightarrow> error + int list" where
  "read_lengths s [] = Inr []"
| "read_lengths s (a # as) =
     (if a < length s then
        (case s ! a of
           FactCell f \<Rightarrow>
             (case read_lengths s as of Inl e \<Rightarrow> Inl e | Inr ls \<Rightarrow> Inr (length_int f # ls))
         | _ \<Rightarrow> Inl TypeError)
      else Inl TypeError)"

definition compute_statistics_st :: "nat \<Rightarrow> store \<Rightarrow> (error + nat) \<times> store" where
  "compute_statistics_st facts s =
     (if facts < length s then
        (case s ! facts of
           ListCell elems \<Rightarrow>
             (case read_lengths s elems of
                Inl e \<Rightarrow> (Inl e, s)
              | Inr lengths \<Rightarrow>
                  (let s1 = s @ [IntsCell lengths]
                   in case summarize lengths of
                        Inl e \<Rightarrow> (Inl e, s1)
                      | Inr st \<Rightarrow> (Inr (length s1), s1 @ [StatsCell st])))
         | _ \<Rightarrow> (Inl TypeError, s))
      else (Inl TypeError, s))"

text \<open>The facts that a list cell of the store denotes, when every element is a fact.\<close>

fun facts_at :: "store \<Rightarrow> nat list \<Rightarrow> Fact list option" where
  "facts_at s [] = Some []"
| "facts_at s (a # as) =
     (if a < length s then
        (case s ! a of
           FactCell f \<Rightarrow> (case facts_at s as of None \<Rightarrow> None | Some fs \<Rightarrow> Some (f # fs))
         | _ \<Rightarrow> None)
      else None)"

text \<open>What a call returns: the exception, or the cell at the address returned.\<close>

definition returned :: "(error + nat) \<times> store \<Rightarrow> error + cell" where
  "returned r = (case fst r of Inl e \<Rightarrow> Inl e | Inr a \<Rightarrow> Inr (snd r ! a))"

section \<open>Text formatting\<close>

text \<open>\<^verbatim>\<open>str\<close> of an integer: decimal digits, with a minus sign when negative.\<close>

fun str_nat :: "nat \<Rightarrow> string" where
  "str_nat n =
     (if n < 10 then [char_of (48 + n)]
      else str_nat (n div 10) @ [char_of (48 + n mod 10)])"

declare str_nat.simps [simp del]

definition str_int :: "int \<Rightarrow> string" where
  "str_int i = (if i < 0 then CHR ''-'' # str_nat (nat (- i)) else str_nat (nat i))"

text \<open>
  The format specification \<^verbatim>\<open>.2f\<close>: the value, rounded to two decimals with ties to
  even on its exact value, as sign, integer part, point and two digits. An \<open>int\<close> is
  converted to \<open>float\<close> first, which can raise \<^verbatim>\<open>OverflowError\<close>.
\<close>

definition fixed2 :: "rat \<Rightarrow> string" where
  "fixed2 r =
     (let n = nat (round_half_even (\<bar>r\<bar> * 100))
      in (if r < 0 then ''-'' else []) @ str_nat (n div 100) @ ''.'' @
         [char_of (48 + n mod 100 div 10), char_of (48 + n mod 10)])"

definition format_2f :: "number \<Rightarrow> error + string" where
  "format_2f x =
     (case x of
        PyFloat r \<Rightarrow> Inr (fixed2 r)
      | PyInt i \<Rightarrow> (case float_of_rat (of_int i) of Inl e \<Rightarrow> Inl e | Inr r \<Rightarrow> Inr (fixed2 r)))"

definition newline :: char where
  "newline = CHR 0x0A"

section \<open>The loader\<close>

text \<open>
  What \<^verbatim>\<open>json.load\<close> returns. An object is the list of its items; its keys are
  distinct, as those of a Python dictionary are, and \<open>map_of\<close> is the lookup.
\<close>

datatype json =
    JNull
  | JBool bool
  | JInt int
  | JFloat rat
  | JString string
  | JArray "json list"
  | JObject "(string \<times> json) list"

text \<open>
  Opening and parsing the file at a path is the environment's part: it gives the
  parsed value, or the exception (file missing, malformed text).
\<close>

type_synonym reader = "string \<Rightarrow> error + json"

text \<open>\<^verbatim>\<open>data.get(key, default)\<close>; only a dictionary has the method.\<close>

definition dict_get :: "json \<Rightarrow> string \<Rightarrow> json \<Rightarrow> error + json" where
  "dict_get d k dflt =
     (case d of
        JObject kvs \<Rightarrow> Inr (case map_of kvs k of None \<Rightarrow> dflt | Some v \<Rightarrow> v)
      | _ \<Rightarrow> Inl AttributeError)"

definition load_facts :: "reader \<Rightarrow> string \<Rightarrow> error + json" where
  "load_facts rd json_path =
     (case rd json_path of
        Inl e \<Rightarrow> Inl e
      | Inr data \<Rightarrow> dict_get data ''facts'' (JArray []))"

text \<open>Python's truth value of a parsed value, as \<^verbatim>\<open>if not facts\<close> tests it.\<close>

fun truthy :: "json \<Rightarrow> bool" where
  "truthy JNull = False"
| "truthy (JBool b) = b"
| "truthy (JInt i) = (i \<noteq> 0)"
| "truthy (JFloat r) = (r \<noteq> 0)"
| "truthy (JString s) = (s \<noteq> [])"
| "truthy (JArray xs) = (xs \<noteq> [])"
| "truthy (JObject kvs) = (kvs \<noteq> [])"

text \<open>
  The shape the program trusts: an array of objects with a string under \<^verbatim>\<open>fact\<close> and
  an integer under \<^verbatim>\<open>length\<close>. \<open>as_facts\<close> reads such a value as a list of facts.
\<close>

definition as_fact :: "json \<Rightarrow> Fact option" where
  "as_fact v =
     (case v of
        JObject kvs \<Rightarrow>
          (case (map_of kvs ''fact'', map_of kvs ''length'') of
             (Some (JString t), Some (JInt n)) \<Rightarrow> Some \<lparr>fact_str = t, length_int = n\<rparr>
           | _ \<Rightarrow> None)
      | _ \<Rightarrow> None)"

fun all_facts :: "json list \<Rightarrow> Fact list option" where
  "all_facts [] = Some []"
| "all_facts (v # vs) =
     (case as_fact v of
        None \<Rightarrow> None
      | Some f \<Rightarrow> (case all_facts vs of None \<Rightarrow> None | Some fs \<Rightarrow> Some (f # fs)))"

definition as_facts :: "json \<Rightarrow> Fact list option" where
  "as_facts v = (case v of JArray vs \<Rightarrow> all_facts vs | _ \<Rightarrow> None)"

section \<open>Console, chart library and file system\<close>

text \<open>
  A figure of the chart library, as the calls of the program determine it: the
  calls of \<^verbatim>\<open>hist\<close> on it (the data and the number of bins passed; the bins
  themselves are the library's), the title and the axis labels.
\<close>

record figure =
  histograms :: "(int list \<times> nat) list"
  title :: string
  xlabel :: string
  ylabel :: string
  tight :: bool

definition empty_figure :: figure where
  "empty_figure = \<lparr>histograms = [], title = [], xlabel = [], ylabel = [], tight = False\<rparr>"

text \<open>
  The world outside the program: the texts given to \<^verbatim>\<open>print\<close>, one per call; the
  open figures of \<^verbatim>\<open>pyplot\<close> with their numbers, the last one being the current
  figure; the directories that exist; the image files and what they show.
\<close>

record world =
  stdout :: "string list"
  figures :: "(nat \<times> figure) list"
  dirs :: "string list"
  files :: "(string \<times> figure) list"

definition print :: "string \<Rightarrow> world \<Rightarrow> world" where
  "print s w = w\<lparr>stdout := stdout w @ [s]\<rparr>"

subsection \<open>\<^verbatim>\<open>matplotlib.pyplot\<close>\<close>

text \<open>\<^verbatim>\<open>plt.figure()\<close> opens a new figure under the next free number and makes it current.\<close>

definition plt_figure :: "world \<Rightarrow> world" where
  "plt_figure w =
     w\<lparr>figures := figures w @ [(Suc (fold max (map fst (figures w)) 0), empty_figure)]\<rparr>"

text \<open>
  The drawing calls act on the current figure; \<^verbatim>\<open>pyplot\<close> opens one when none is open.
\<close>

definition on_current :: "(figure \<Rightarrow> figure) \<Rightarrow> world \<Rightarrow> world" where
  "on_current g w =
     (let w1 = (if figures w = [] then plt_figure w else w);
          (n, fig) = last (figures w1)
      in w1\<lparr>figures := butlast (figures w1) @ [(n, g fig)]\<rparr>)"

definition plt_hist :: "int list \<Rightarrow> nat \<Rightarrow> world \<Rightarrow> world" where
  "plt_hist xs bins = on_current (\<lambda>fig. fig\<lparr>histograms := histograms fig @ [(xs, bins)]\<rparr>)"

definition plt_title :: "string \<Rightarrow> world \<Rightarrow> world" where
  "plt_title t = on_current (\<lambda>fig. fig\<lparr>title := t\<rparr>)"

definition plt_xlabel :: "string \<Rightarrow> world \<Rightarrow> world" where
  "plt_xlabel t = on_current (\<lambda>fig. fig\<lparr>xlabel := t\<rparr>)"

definition plt_ylabel :: "string \<Rightarrow> world \<Rightarrow> world" where
  "plt_ylabel t = on_current (\<lambda>fig. fig\<lparr>ylabel := t\<rparr>)"

definition plt_tight_layout :: "world \<Rightarrow> world" where
  "plt_tight_layout = on_current (\<lambda>fig. fig\<lparr>tight := True\<rparr>)"

text \<open>\<^verbatim>\<open>plt.close()\<close> closes the current figure, if there is one.\<close>

definition plt_close :: "world \<Rightarrow> world" where
  "plt_close w = w\<lparr>figures := butlast (figures w)\<rparr>"

subsection \<open>Paths and files\<close>

text \<open>\<^verbatim>\<open>os.path.dirname\<close> and \<^verbatim>\<open>os.path.join\<close> of \<^verbatim>\<open>posixpath\<close>.\<close>

definition slash :: char where
  "slash = CHR ''/''"

definition dirname :: "string \<Rightarrow> string" where
  "dirname p =
     (let head = rev (dropWhile (\<lambda>c. c \<noteq> slash) (rev p))
      in if head \<noteq> [] \<and> \<not> list_all (\<lambda>c. c = slash) head
         then rev (dropWhile (\<lambda>c. c = slash) (rev head))
         else head)"

definition path_join :: "string \<Rightarrow> string \<Rightarrow> string" where
  "path_join a b =
     (if b \<noteq> [] \<and> hd b = slash then b
      else if a = [] \<or> last a = slash then a @ b
      else a @ [slash] @ b)"

text \<open>
  \<^verbatim>\<open>os.makedirs(name, exist_ok=True)\<close>: the empty name raises
  \<^verbatim>\<open>FileNotFoundError\<close>, a name that is a file raises \<^verbatim>\<open>FileExistsError\<close>, an existing
  directory is left as it is. The model lists the directory itself, not the intermediate
  ones.
\<close>

definition os_makedirs :: "string \<Rightarrow> world \<Rightarrow> (error + unit) \<times> world" where
  "os_makedirs name w =
     (if name = [] then (Inl FileNotFoundError, w)
      else if name \<in> set (map fst (files w)) then (Inl FileExistsError, w)
      else if name \<in> set (dirs w) then (Inr (), w)
      else (Inr (), w\<lparr>dirs := dirs w @ [name]\<rparr>))"

text \<open>
  \<^verbatim>\<open>os.path.splitext\<close>: the extension is what follows the last dot of the last path
  component, with the dot, unless only dots precede it there.
\<close>

definition dot :: char where
  "dot = CHR ''.''"

definition splitext :: "string \<Rightarrow> string \<times> string" where
  "splitext p =
     (let base = rev (takeWhile (\<lambda>c. c \<noteq> slash) (rev p));
          ext = rev (takeWhile (\<lambda>c. c \<noteq> dot) (rev base));
          stem = rev (drop 1 (dropWhile (\<lambda>c. c \<noteq> dot) (rev base)))
      in if dot \<in> set base \<and> \<not> list_all (\<lambda>c. c = dot) stem
         then (take (length p - Suc (length ext)) p, dot # ext)
         else (p, []))"

text \<open>\<^verbatim>\<open>str.lower\<close> on the letters A to Z.\<close>

definition ascii_lower :: "char \<Rightarrow> char" where
  "ascii_lower c =
     (let n = (of_char c :: nat) in if 65 \<le> n \<and> n \<le> 90 then char_of (n + 32) else c)"

text \<open>
  The file that \<^verbatim>\<open>savefig\<close> writes and its format: the format is the extension of
  the name in lower case; a name without extension gets \<^verbatim>\<open>.png\<close> appended (after its
  trailing dots are removed); a format the library does not know raises
  \<^verbatim>\<open>ValueError\<close>.
\<close>

definition supported_formats :: "string list" where
  "supported_formats =
     [''eps'', ''jpeg'', ''jpg'', ''pdf'', ''pgf'', ''png'', ''ps'', ''raw'', ''rgba'',
      ''svg'', ''svgz'', ''tif'', ''tiff'', ''webp'']"

definition savefig_target :: "string \<Rightarrow> error + string" where
  "savefig_target fname =
     (let fmt0 = drop 1 (snd (splitext fname));
          name = (if fmt0 = [] then rev (dropWhile (\<lambda>c. c = dot) (rev fname)) @ ''.png''
                  else fname);
          fmt = (if fmt0 = [] then ''png'' else map ascii_lower fmt0)
      in if fmt \<in> set supported_formats then Inr name else Inl ValueError)"

text \<open>
  \<^verbatim>\<open>plt.savefig(path)\<close> renders the current figure into the file, replacing what was
  there. It raises when the format is not supported, when the file name is a directory, or
  when it lies in a directory that does not exist (a name without directory part lies in
  the working directory, which exists).
\<close>

definition plt_savefig :: "string \<Rightarrow> world \<Rightarrow> (error + unit) \<times> world" where
  "plt_savefig path w =
     (let w1 = (if figures w = [] then plt_figure w else w)
      in case savefig_target path of
           Inl e \<Rightarrow> (Inl e, w1)
         | Inr name \<Rightarrow>
             if name \<in> set (dirs w1) then (Inl IsADirectoryError, w1)
             else if dirname name \<noteq> [] \<and> dirname name \<notin> set (dirs w1)
               then (Inl FileNotFoundError, w1)
             else (Inr (),
                   w1\<lparr>files := (name, snd (last (figures w1))) #
                                  filter (\<lambda>kv. fst kv \<noteq> name) (files w1)\<rparr>))"

section \<open>The plotter\<close>

definition plot_length_histogram :: "Fact list \<Rightarrow> string \<Rightarrow> world \<Rightarrow> (error + unit) \<times> world" where
  "plot_length_histogram facts output_path w =
     (let lengths = map length_int facts;
          w1 = plt_figure w;
          w2 = plt_hist lengths 10 w1;
          w3 = plt_title ''Distribution of Cat Fact Lengths'' w2;
          w4 = plt_xlabel ''Fact Length (characters)'' w3;
          w5 = plt_ylabel ''Frequency'' w4;
          w6 = plt_tight_layout w5
      in case os_makedirs (dirname output_path) w6 of
           (Inl e, w7) \<Rightarrow> (Inl e, w7)
         | (Inr u, w7) \<Rightarrow>
             (case plt_savefig output_path w7 of
                (Inl e, w8) \<Rightarrow> (Inl e, w8)
              | (Inr u, w8) \<Rightarrow> (Inr (), plt_close w8)))"

text \<open>The figure that the drawing calls of \<^verbatim>\<open>plot_length_histogram\<close> build.\<close>

definition chart :: "int list \<Rightarrow> figure" where
  "chart lengths =
     \<lparr>histograms = [(lengths, 10)], title = ''Distribution of Cat Fact Lengths'',
      xlabel = ''Fact Length (characters)'', ylabel = ''Frequency'', tight = True\<rparr>"

section \<open>The entry point\<close>

text \<open>The loop of lines 102 and 103 over the numbered facts.\<close>

definition fact_line :: "nat \<Rightarrow> Fact \<Rightarrow> string" where
  "fact_line idx f =
     str_nat idx @ ''. '' @ fact_str f @ '' (Length: '' @ str_int (length_int f) @ '')''"

fun report_facts :: "(nat \<times> Fact) list \<Rightarrow> world \<Rightarrow> world" where
  "report_facts [] w = w"
| "report_facts ((idx, f) # rest) w = report_facts rest (print (fact_line idx f) w)"

text \<open>
  \<^verbatim>\<open>main\<close>. The directory of the script and the reader of the data file are given.
  A loaded value that is true but not of the trusted shape is outside the data model; the
  model ends there with \<open>UntrustedShape\<close> and says nothing about what the program prints.
\<close>

datatype failure = Raised error | UntrustedShape

definition main :: "string \<Rightarrow> reader \<Rightarrow> world \<Rightarrow> (failure + unit) \<times> world" where
  "main current_dir rd w =
     (let data_path = path_join (path_join current_dir ''data'') ''cat_facts.json'';
          output_dir = path_join current_dir ''output'';
          image_path = path_join output_dir ''cat_fact_length_hist.png''
      in case load_facts rd data_path of
           Inl e \<Rightarrow> (Inl (Raised e), w)
         | Inr v \<Rightarrow>
             if \<not> truthy v
             then (Inr (), print ''No facts were loaded. Please check the data file.'' w)
             else
               (case as_facts v of
                  None \<Rightarrow> (Inl UntrustedShape, w)
                | Some facts \<Rightarrow>
                    (let w1 = print (''Cat Facts:'' @ [newline] @ ''-----------'') w;
                         w2 = report_facts (enumerate 1 (take 5 facts)) w1
                     in case compute_statistics facts of
                          Inl e \<Rightarrow> (Inl (Raised e), w2)
                        | Inr stats \<Rightarrow>
                            (let w3 = print ([newline] @ ''Statistics:'') w2;
                                 w4 = print (''Total facts: '' @ str_int (count stats)) w3;
                                 w5 = print (''Shortest fact length: '' @
                                             str_int (min_length stats)) w4;
                                 w6 = print (''Longest fact length: '' @
                                             str_int (max_length stats)) w5
                             in case format_2f (avg_length stats) of
                                  Inl e \<Rightarrow> (Inl (Raised e), w6)
                                | Inr avg \<Rightarrow>
                                    (let w7 = print (''Average fact length: '' @ avg) w6
                                     in case plot_length_histogram facts image_path w7 of
                                          (Inl e, w8) \<Rightarrow> (Inl (Raised e), w8)
                                        | (Inr u, w8) \<Rightarrow>
                                            (Inr (),
                                             print ([newline] @ ''Histogram saved to '' @
                                                    image_path) w8))))))"




definition stats_lines :: "statistics \<Rightarrow> string list" where
  "stats_lines stats =
     [[newline] @ ''Statistics:'',
      ''Total facts: '' @ str_int (count stats),
      ''Shortest fact length: '' @ str_int (min_length stats),
      ''Longest fact length: '' @ str_int (max_length stats)]"

section \<open>Concrete inputs\<close>

text \<open>The three facts of the scenario of the specification, parsed and as facts.\<close>

definition three_array :: json where
  "three_array =
     JArray
       [JObject [(''fact'', JString ''Cats sleep a lot.''), (''length'', JInt 17)],
        JObject [(''fact'', JString ''Cats have claws.''), (''length'', JInt 17)],
        JObject [(''fact'', JString ''Cats purr.''), (''length'', JInt 10)]]"

definition three_doc :: json where
  "three_doc = JObject [(''facts'', three_array)]"

text \<open>An object without the key \<^verbatim>\<open>facts\<close>.\<close>

definition other_doc :: json where
  "other_doc = JObject [(''source'', JString ''catfact.ninja'')]"

definition three_facts :: "Fact list" where
  "three_facts =
     [\<lparr>fact_str = ''Cats sleep a lot.'', length_int = 17\<rparr>,
      \<lparr>fact_str = ''Cats have claws.'', length_int = 17\<rparr>,
      \<lparr>fact_str = ''Cats purr.'', length_int = 10\<rparr>]"

text \<open>Two facts whose lengths, \<open>2 ^ 54 + 1\<close> and \<open>2 ^ 54 + 2\<close>, are not binary64 values.\<close>

definition huge_facts :: "Fact list" where
  "huge_facts =
     [\<lparr>fact_str = ''a'', length_int = 18014398509481985\<rparr>,
      \<lparr>fact_str = ''b'', length_int = 18014398509481986\<rparr>]"


text \<open>A store with the three facts at the addresses 0 to 2 and their list at address 3.\<close>

definition three_store :: store where
  "three_store =
     [FactCell \<lparr>fact_str = ''Cats sleep a lot.'', length_int = 17\<rparr>,
      FactCell \<lparr>fact_str = ''Cats have claws.'', length_int = 17\<rparr>,
      FactCell \<lparr>fact_str = ''Cats purr.'', length_int = 10\<rparr>,
      ListCell [0, 1, 2]]"

text \<open>A world with nothing printed, no open figure, no directory and no file.\<close>

definition w0 :: world where
  "w0 = \<lparr>stdout = [], figures = [], dirs = [], files = []\<rparr>"

section \<open>Properties of the numeric library\<close>

subsection \<open>Rounding and conversion to binary64\<close>

lemma round_half_even_ge: "of_int n \<le> x \<Longrightarrow> n \<le> round_half_even x"
proof -
  assume "of_int n \<le> x"
  then have "n \<le> \<lfloor>x\<rfloor>" by (simp add: le_floor_iff)
  then show ?thesis by (simp add: round_half_even_def Let_def)
qed

lemma round_half_even_le: "x \<le> of_int n \<Longrightarrow> round_half_even x \<le> n"
proof (cases "x = of_int n")
  case True
  then show ?thesis by (simp add: round_half_even_def Let_def)
next
  case False
  assume "x \<le> of_int n"
  with False have "x < of_int n" by simp
  then have "\<lfloor>x\<rfloor> < n" by (simp add: floor_less_iff)
  then show ?thesis by (simp add: round_half_even_def Let_def)
qed

lemma round_half_even_err: "\<bar>of_int (round_half_even x) - x\<bar> \<le> 1 / 2"
proof -
  have "of_int \<lfloor>x\<rfloor> \<le> x" "x < of_int \<lfloor>x\<rfloor> + 1" by linarith+
  then show ?thesis by (auto simp add: round_half_even_def Let_def)
qed

lemma ilog2_le:
  assumes "q \<noteq> 0"
  shows "2 powi (ilog2 q) \<le> \<bar>q\<bar>"
proof -
  obtain a b where ab: "quotient_of \<bar>q\<bar> = (a, b)" by (cases "quotient_of \<bar>q\<bar>")
  then have b: "0 < b" by (rule quotient_of_denom_pos)
  have q: "\<bar>q\<bar> = of_int a / of_int b" using ab by (rule quotient_of_div)
  have "0 < \<bar>q\<bar>" using assms by simp
  with q b have a: "0 < a" by (simp add: zero_less_divide_iff)
  define k where "k = bitlen a - bitlen b"
  have il: "ilog2 q = (if 2 powi k \<le> \<bar>q\<bar> then k else k - 1)"
    by (simp add: ilog2_def ab k_def Let_def)
  have la: "1 \<le> bitlen a" using a bitlen_eq_zero_iff[of a] bitlen_nonneg[of a] by linarith
  have lb: "1 \<le> bitlen b" using b bitlen_eq_zero_iff[of b] bitlen_nonneg[of b] by linarith
  have A: "(2::rat) powi (bitlen a - 1) \<le> of_int a"
  proof -
    have "(2::int) ^ nat (bitlen a - 1) \<le> a" using bitlen_bounds[OF a] by simp
    then have "(of_int ((2::int) ^ nat (bitlen a - 1)) :: rat) \<le> of_int a"
      by (simp only: of_int_le_iff)
    then show ?thesis using la by (simp add: power_int_def)
  qed
  have B: "of_int b \<le> (2::rat) powi (bitlen b)"
  proof -
    have "b < (2::int) ^ nat (bitlen b)" using bitlen_bounds[OF b] by simp
    then have "(of_int b :: rat) < of_int ((2::int) ^ nat (bitlen b))"
      by (simp only: of_int_less_iff)
    then show ?thesis using lb by (simp add: power_int_def)
  qed
  have "(2::rat) powi (k - 1) = 2 powi (bitlen a - 1) / 2 powi (bitlen b)"
    by (simp add: k_def power_int_diff)
  also have "\<dots> \<le> of_int a / 2 powi (bitlen b)"
    using A by (simp add: divide_right_mono)
  also have "\<dots> \<le> of_int a / of_int b"
    using B a b by (simp add: divide_left_mono)
  finally have "(2::rat) powi (k - 1) \<le> \<bar>q\<bar>" using q by simp
  then show ?thesis by (simp add: il)
qed

lemma float_of_rat_err:
  assumes "float_of_rat q = Inr r"
  shows "\<bar>r - q\<bar> \<le> max (\<bar>q\<bar> / 2 ^ 53) (1 / 2 ^ 1075)"
proof (cases "q = 0")
  case True
  with assms show ?thesis by (simp add: float_of_rat_def)
next
  case False
  define e where "e = max (ilog2 q - 52) (- 1074)"
  define p where "p = (2::rat) powi e"
  define m where "m = round_half_even (\<bar>q\<bar> / p)"
  have p0: "0 < p" by (simp add: p_def)
  have "float_of_rat q = (if 2 ^ 1024 \<le> of_int m * p then Inl OverflowError
                          else Inr (sgn q * (of_int m * p)))"
    using False by (simp only: float_of_rat_def Let_def e_def[symmetric] p_def[symmetric]
        m_def[symmetric] if_False)
  with assms have r: "r = sgn q * (of_int m * p)" by (simp split: if_splits)
  have "q = sgn q * \<bar>q\<bar>" by (simp add: sgn_mult_abs)
  then have "r - q = sgn q * (of_int m * p - \<bar>q\<bar>)"
    unfolding r by (metis right_diff_distrib)
  then have "\<bar>r - q\<bar> = \<bar>sgn q * (of_int m * p - \<bar>q\<bar>)\<bar>" by simp
  also have "\<dots> = \<bar>of_int m * p - \<bar>q\<bar>\<bar>"
    using False by (simp add: abs_mult abs_sgn_eq)
  also have "\<dots> = \<bar>of_int m - \<bar>q\<bar> / p\<bar> * p"
  proof -
    have "of_int m * p - \<bar>q\<bar> = (of_int m - \<bar>q\<bar> / p) * p" using p0 by (simp add: algebra_simps)
    then show ?thesis using p0 by (simp add: abs_mult)
  qed
  also have "\<dots> \<le> 1 / 2 * p"
    using round_half_even_err[of "\<bar>q\<bar> / p"] p0 unfolding m_def
    by (intro mult_right_mono) simp_all
  finally have bound: "\<bar>r - q\<bar> \<le> p / 2" by simp
  have "p \<le> max (\<bar>q\<bar> / 2 ^ 52) (1 / 2 ^ 1074)"
  proof (cases "- 1074 \<le> ilog2 q - 52")
    case True
    then have "e = ilog2 q - 52" by (simp add: e_def)
    then have "p = 2 powi (ilog2 q) / 2 ^ 52" by (simp add: p_def power_int_diff)
    also have "\<dots> \<le> \<bar>q\<bar> / 2 ^ 52" using ilog2_le[OF False] by (simp add: divide_right_mono)
    finally show ?thesis by simp
  next
    case False
    then have "e = - 1074" by (simp add: e_def)
    then have "p = 1 / 2 ^ 1074" by (simp add: p_def power_int_minus_divide)
    then show ?thesis by simp
  qed
  then have "p / 2 \<le> max (\<bar>q\<bar> / 2 ^ 52) (1 / 2 ^ 1074) / 2" by simp
  also have "\<dots> = max (\<bar>q\<bar> / 2 ^ 53) (1 / 2 ^ 1075)" by (simp add: max_def)
  finally show ?thesis using bound by simp
qed

lemma ilog2_less:
  assumes "q \<noteq> 0" "\<bar>q\<bar> < 2 ^ n"
  shows "ilog2 q < int n"
proof (rule ccontr)
  assume "\<not> ilog2 q < int n"
  then have "int n \<le> ilog2 q" by simp
  then have "(2::rat) powi (int n) \<le> 2 powi (ilog2 q)"
    by (intro power_int_increasing) simp_all
  also have "\<dots> \<le> \<bar>q\<bar>" using assms(1) by (rule ilog2_le)
  finally show False using assms(2) by simp
qed

lemma float_of_rat_small:
  assumes q0: "q \<noteq> 0" and qb: "\<bar>q\<bar> < 2 ^ 53"
  obtains n where
    "float_of_rat q = Inr (sgn q * (of_int (round_half_even (\<bar>q\<bar> * 2 ^ n)) / 2 ^ n))"
proof -
  define e where "e = max (ilog2 q - 52) (- 1074)"
  define n where "n = nat (- e)"
  let ?m = "round_half_even (\<bar>q\<bar> * 2 ^ n)"
  have "ilog2 q < 53" using ilog2_less[OF q0 qb] by simp
  then have e0: "e \<le> 0" by (simp add: e_def)
  then have en: "e = - int n" by (simp add: n_def)
  have pw: "(2::rat) powi e = 1 / 2 ^ n"
    by (simp add: en power_int_minus divide_inverse)
  have "\<bar>q\<bar> * 2 ^ n \<le> of_int ((2::int) ^ 53 * 2 ^ n)" using qb by simp
  then have "?m \<le> 2 ^ 53 * 2 ^ n" by (rule round_half_even_le)
  then have "(of_int ?m :: rat) \<le> of_int (2 ^ 53 * 2 ^ n)" by (simp only: of_int_le_iff)
  then have "(of_int ?m :: rat) / 2 ^ n \<le> 2 ^ 53" by (simp add: divide_le_eq)
  also have "\<dots> < (2::rat) ^ 1024" by simp
  finally have nov: "\<not> (2::rat) ^ 1024 \<le> of_int ?m / 2 ^ n" by simp
  have "float_of_rat q = Inr (sgn q * (of_int ?m / 2 ^ n))"
    using q0 nov unfolding float_of_rat_def Let_def e_def[symmetric] pw
    by simp
  then show ?thesis using that by simp
qed

lemma float_of_rat_between:
  assumes lo: "of_int a \<le> q" and hi: "q \<le> of_int b"
    and q0: "q \<noteq> 0" and qb: "\<bar>q\<bar> < 2 ^ 53"
  obtains r where "float_of_rat q = Inr r" "of_int a \<le> r" "r \<le> of_int b"
proof -
  obtain n where fl:
    "float_of_rat q = Inr (sgn q * (of_int (round_half_even (\<bar>q\<bar> * 2 ^ n)) / 2 ^ n))"
    using float_of_rat_small[OF q0 qb] by blast
  let ?m = "round_half_even (\<bar>q\<bar> * 2 ^ n)"
  let ?v = "(of_int ?m :: rat) / 2 ^ n"
  have ge: "of_int c \<le> ?v" if "of_int c \<le> \<bar>q\<bar>" for c
  proof -
    from that have "of_int (c * 2 ^ n) \<le> \<bar>q\<bar> * 2 ^ n" by simp
    then have "c * 2 ^ n \<le> ?m" by (rule round_half_even_ge)
    then have "(of_int (c * 2 ^ n) :: rat) \<le> of_int ?m" by (simp only: of_int_le_iff)
    then show ?thesis by (simp add: le_divide_eq)
  qed
  have le: "?v \<le> of_int c" if "\<bar>q\<bar> \<le> of_int c" for c
  proof -
    from that have "\<bar>q\<bar> * 2 ^ n \<le> of_int (c * 2 ^ n)" by simp
    then have "?m \<le> c * 2 ^ n" by (rule round_half_even_le)
    then have "(of_int ?m :: rat) \<le> of_int (c * 2 ^ n)" by (simp only: of_int_le_iff)
    then show ?thesis by (simp add: divide_le_eq)
  qed
  have v0: "0 \<le> ?v" using ge[of 0] by simp
  have "of_int a \<le> sgn q * ?v \<and> sgn q * ?v \<le> of_int b"
  proof (cases "0 < q")
    case True
    then have s: "sgn q = 1" by simp
    have "of_int a \<le> ?v" using ge[of a] lo True by simp
    moreover have "?v \<le> of_int b" using le[of b] hi True by simp
    ultimately show ?thesis unfolding s by simp
  next
    case False
    with q0 have neg: "q < 0" by simp
    then have s: "sgn q = - 1" by simp
    have "?v \<le> of_int (- a)" using le[of "- a"] lo neg by simp
    then have "of_int a \<le> - ?v" by simp
    moreover have "of_int (- b) \<le> ?v" using ge[of "- b"] hi neg by simp
    then have "- ?v \<le> of_int b" by simp
    ultimately show ?thesis unfolding s by simp
  qed
  then show ?thesis using that[OF fl] by blast
qed

subsection \<open>Minimum, maximum and mean\<close>

lemma py_min_Min: "xs \<noteq> [] \<Longrightarrow> py_min xs = Inr (Min (set xs))"
proof (cases xs)
  case Nil
  assume "xs \<noteq> []"
  with Nil show ?thesis by simp
next
  case (Cons a list)
  then show ?thesis using Min.set_eq_fold[of a list] by (simp add: py_min_def)
qed

lemma py_max_Max: "xs \<noteq> [] \<Longrightarrow> py_max xs = Inr (Max (set xs))"
proof (cases xs)
  case Nil
  assume "xs \<noteq> []"
  with Nil show ?thesis by simp
next
  case (Cons a list)
  then show ?thesis using Max.set_eq_fold[of a list] by (simp add: py_max_def)
qed

lemma quotient_of_integral: "snd (quotient_of q) = 1 \<longleftrightarrow> q \<in> \<int>"
proof
  assume "snd (quotient_of q) = 1"
  then have "quotient_of q = (fst (quotient_of q), 1)" by (metis prod.collapse)
  then have "q = of_int (fst (quotient_of q)) / of_int 1" by (rule quotient_of_div)
  then show "q \<in> \<int>" by (metis Ints_of_int div_by_1 of_int_1)
next
  assume "q \<in> \<int>"
  then obtain k where "q = of_int k" by (auto elim: Ints_cases)
  then show "snd (quotient_of q) = 1" by simp
qed

lemma mean_nonempty:
  assumes "xs \<noteq> []"
  shows "mean xs =
    (if exact_mean xs \<in> \<int> then Inr (PyInt \<lfloor>exact_mean xs\<rfloor>)
     else (case float_of_rat (exact_mean xs) of Inl e \<Rightarrow> Inl e | Inr r \<Rightarrow> Inr (PyFloat r)))"
proof -
  have q: "Fract (sum_list xs) (int (length xs)) = exact_mean xs"
    by (simp add: exact_mean_def Fract_of_int_quotient)
  show ?thesis
  proof (cases "exact_mean xs \<in> \<int>")
    case True
    then obtain k where k: "exact_mean xs = of_int k" by (auto elim: Ints_cases)
    then show ?thesis using assms True by (simp add: mean_def q Let_def)
  next
    case False
    then show ?thesis using assms by (simp add: mean_def q Let_def quotient_of_integral)
  qed
qed

lemma sum_list_ge: "(\<forall>x \<in> set xs. a \<le> x) \<Longrightarrow> a * int (length xs) \<le> sum_list xs"
  by (induction xs) (auto simp: algebra_simps)

lemma sum_list_le: "(\<forall>x \<in> set xs. x \<le> b) \<Longrightarrow> sum_list xs \<le> b * int (length xs)"
  by (induction xs) (auto simp: algebra_simps)

lemma exact_mean_ge:
  assumes "xs \<noteq> []" "\<forall>x \<in> set xs. a \<le> x"
  shows "of_int a \<le> exact_mean xs"
proof -
  have "(of_int (a * int (length xs)) :: rat) \<le> of_int (sum_list xs)"
    using sum_list_ge[OF assms(2)] by (simp only: of_int_le_iff)
  then show ?thesis using assms(1) by (simp add: exact_mean_def le_divide_eq)
qed

lemma exact_mean_le:
  assumes "xs \<noteq> []" "\<forall>x \<in> set xs. x \<le> b"
  shows "exact_mean xs \<le> of_int b"
proof -
  have "(of_int (sum_list xs) :: rat) \<le> of_int (b * int (length xs))"
    using sum_list_le[OF assms(2)] by (simp only: of_int_le_iff)
  then show ?thesis using assms(1) by (simp add: exact_mean_def divide_le_eq)
qed

lemma summarize_nonempty:
  assumes "xs \<noteq> []"
  shows "summarize xs =
    (case mean xs of Inl e \<Rightarrow> Inl e
     | Inr av \<Rightarrow> Inr \<lparr>count = int (length xs), min_length = Min (set xs),
                       max_length = Max (set xs), avg_length = av\<rparr>)"
  using assms by (simp add: summarize_def py_min_Min py_max_Max)

lemma Ints_abs_less:
  fixes q :: rat
  assumes "q \<notin> \<int>" "\<bar>q\<bar> \<le> of_int k"
  shows "\<bar>q\<bar> < of_int k"
proof -
  have "\<bar>q\<bar> \<noteq> of_int k"
  proof
    assume "\<bar>q\<bar> = of_int k"
    then have "q = of_int k \<or> q = of_int (- k)" by simp linarith
    then have "q \<in> \<int>" by (metis Ints_of_int)
    with assms(1) show False by simp
  qed
  with assms(2) show ?thesis by simp
qed

section \<open>Properties of the statistics calculator\<close>

lemma bounded_statistics:
  assumes ne: "facts \<noteq> []"
    and bd: "\<forall>f \<in> set facts. \<bar>length_int f\<bar> \<le> 2 ^ 53"
  shows "\<exists>s. compute_statistics facts = Inr s
    \<and> count s = int (length facts)
    \<and> min_length s = Min (length_int ` set facts)
    \<and> max_length s = Max (length_int ` set facts)
    \<and> (if exact_mean (map length_int facts) \<in> \<int>
        then avg_length s = PyInt \<lfloor>exact_mean (map length_int facts)\<rfloor>
        else \<exists>r. float_of_rat (exact_mean (map length_int facts)) = Inr r
               \<and> avg_length s = PyFloat r)
    \<and> \<bar>num_val (avg_length s) - exact_mean (map length_int facts)\<bar>
          \<le> max (\<bar>exact_mean (map length_int facts)\<bar> / 2 ^ 53) (1 / 2 ^ 1075)
    \<and> of_int (min_length s) \<le> num_val (avg_length s)
    \<and> num_val (avg_length s) \<le> of_int (max_length s)"
proof -
  define xs where "xs = map length_int facts"
  define q where "q = exact_mean xs"
  have xne: "xs \<noteq> []" using ne by (simp add: xs_def)
  have fin: "finite (set xs)" "set xs \<noteq> {}" using xne by simp_all
  have lo: "of_int (Min (set xs)) \<le> q"
    unfolding q_def using xne fin by (intro exact_mean_ge) simp_all
  have hi: "q \<le> of_int (Max (set xs))"
    unfolding q_def using xne fin by (intro exact_mean_le) simp_all
  have mn: "Min (set xs) \<in> set xs" using fin by (rule Min_in)
  have mx: "Max (set xs) \<in> set xs" using fin by (rule Max_in)
  have xb: "\<bar>x\<bar> \<le> 2 ^ 53" if "x \<in> set xs" for x using that bd by (auto simp: xs_def)
  have "- (2 ^ 53) \<le> Min (set xs)" using xb[OF mn] by simp
  then have "(of_int (- (2 ^ 53)) :: rat) \<le> of_int (Min (set xs))" by (simp only: of_int_le_iff)
  with lo have qlo: "- (2 ^ 53) \<le> q" by simp
  have "Max (set xs) \<le> 2 ^ 53" using xb[OF mx] by simp
  then have "(of_int (Max (set xs)) :: rat) \<le> of_int (2 ^ 53)" by (simp only: of_int_le_iff)
  with hi have qhi: "q \<le> 2 ^ 53" by simp
  have summ: "summarize xs =
    (case mean xs of Inl e \<Rightarrow> Inl e
     | Inr av \<Rightarrow> Inr \<lparr>count = int (length xs), min_length = Min (set xs),
                       max_length = Max (set xs), avg_length = av\<rparr>)"
    using xne by (rule summarize_nonempty)
  have img: "length_int ` set facts = set xs" by (simp add: xs_def)
  have len: "length xs = length facts" by (simp add: xs_def)
  show ?thesis
  proof (cases "q \<in> \<int>")
    case True
    then obtain k where k: "q = of_int k" by (auto elim: Ints_cases)
    have m: "mean xs = Inr (PyInt k)"
      using True k by (simp add: mean_nonempty[OF xne] q_def[symmetric])
    have "Min (set xs) \<le> k" "k \<le> Max (set xs)" using lo hi k by simp_all
    then show ?thesis
      using True k
      by (simp add: compute_statistics_def xs_def[symmetric] q_def[symmetric] summ m img len)
  next
    case False
    have "\<bar>q\<bar> \<le> of_int (2 ^ 53)" using qlo qhi by simp
    with False have qb: "\<bar>q\<bar> < of_int (2 ^ 53)" by (rule Ints_abs_less)
    have q0: "q \<noteq> 0" using False by auto
    obtain r where r: "float_of_rat q = Inr r" "of_int (Min (set xs)) \<le> r"
        "r \<le> of_int (Max (set xs))"
      using float_of_rat_between[OF lo hi q0] qb by auto
    have m: "mean xs = Inr (PyFloat r)"
      using False r(1) by (simp add: mean_nonempty[OF xne] q_def[symmetric])
    have err: "\<bar>r - q\<bar> \<le> max (\<bar>q\<bar> / 2 ^ 53) (1 / 2 ^ 1075)"
      using r(1) by (rule float_of_rat_err)
    show ?thesis
      using False r err
      by (simp add: compute_statistics_def xs_def[symmetric] q_def[symmetric] summ m img len)
  qed
qed

text \<open>
  C1, as stated, fails: the mean is converted to binary64, and beyond \<open>2 ^ 53\<close> the
  conversion can leave the interval of the data. For the lengths \<open>2 ^ 54 + 1\<close> and
  \<open>2 ^ 54 + 2\<close> the average returned is \<open>2 ^ 54\<close>, below the minimum.
\<close>

theorem compute_statistics_huge_counterexample:
  "compute_statistics huge_facts =
     Inr \<lparr>count = 2, min_length = 18014398509481985, max_length = 18014398509481986,
          avg_length = PyFloat 18014398509481984\<rparr>
   \<and> num_val (PyFloat 18014398509481984) < of_int 18014398509481985"
  by code_simp

text \<open>
  C1, amended. For every non-empty list of facts whose lengths lie between \<open>- 2 ^ 53\<close>
  and \<open>2 ^ 53\<close>, \<^verbatim>\<open>compute_statistics\<close> returns a dictionary in which \<open>count\<close> is
  the length of the list, \<open>min_length\<close> the minimum and \<open>max_length\<close> the maximum
  of the lengths, \<open>avg_length\<close> is the arithmetic mean when that is an integer and
  otherwise the mean converted to binary64 (within \<open>2 ^ - 53\<close> of it relatively, or
  \<open>2 ^ - 1075\<close> absolutely), and \<open>min_length \<le> avg_length \<le> max_length\<close>.
\<close>

theorem compute_statistics_bounded:
  assumes ne: "facts \<noteq> []"
    and bd: "\<forall>f \<in> set facts. \<bar>length_int f\<bar> \<le> 2 ^ 53"
  shows "\<exists>s. compute_statistics facts = Inr s
    \<and> count s = int (length facts)
    \<and> min_length s = Min (length_int ` set facts)
    \<and> max_length s = Max (length_int ` set facts)
    \<and> (if exact_mean (map length_int facts) \<in> \<int>
        then avg_length s = PyInt \<lfloor>exact_mean (map length_int facts)\<rfloor>
        else \<exists>r. float_of_rat (exact_mean (map length_int facts)) = Inr r
               \<and> avg_length s = PyFloat r)
    \<and> \<bar>num_val (avg_length s) - exact_mean (map length_int facts)\<bar>
          \<le> max (\<bar>exact_mean (map length_int facts)\<bar> / 2 ^ 53) (1 / 2 ^ 1075)
    \<and> of_int (min_length s) \<le> num_val (avg_length s)
    \<and> num_val (avg_length s) \<le> of_int (max_length s)"
  using assms by (rule bounded_statistics)

theorem compute_statistics_bounded_witness:
  "three_facts \<noteq> [] \<and> list_all (\<lambda>f. \<bar>length_int f\<bar> \<le> 2 ^ 53) three_facts \<and>
   (\<exists>s. compute_statistics three_facts = Inr s \<and> count s = 3 \<and>
        min_length s = 10 \<and> max_length s = 17 \<and>
        of_int (min_length s) \<le> num_val (avg_length s) \<and>
        num_val (avg_length s) \<le> of_int (max_length s))"
proof -
  have h1: "three_facts \<noteq> []" by (simp add: three_facts_def)
  have h2: "\<forall>f \<in> set three_facts. \<bar>length_int f\<bar> \<le> 2 ^ 53" by (simp add: three_facts_def)
  obtain s where s: "compute_statistics three_facts = Inr s"
      "count s = int (length three_facts)"
      "min_length s = Min (length_int ` set three_facts)"
      "max_length s = Max (length_int ` set three_facts)"
      "of_int (min_length s) \<le> num_val (avg_length s)"
      "num_val (avg_length s) \<le> of_int (max_length s)"
    using compute_statistics_bounded[OF h1 h2] by blast
  have "count s = 3" "min_length s = 10" "max_length s = 17"
    using s(2,3,4) by (simp_all add: three_facts_def)
  with s(1,5,6) h1 show ?thesis by (simp add: three_facts_def)
qed

text \<open>
  C9. Called on the empty list, \<^verbatim>\<open>compute_statistics\<close> returns no statistics: the
  minimum of an empty sequence raises \<^verbatim>\<open>ValueError\<close>, which ends the call.
\<close>

theorem compute_statistics_empty_raises:
  "compute_statistics [] = Inl ValueError"
  by (simp add: compute_statistics_def summarize_def py_min_def)

text \<open>
  C8. On a list of one fact, \<^verbatim>\<open>compute_statistics\<close> returns count 1, and minimum,
  maximum and average all equal to the length of that fact (the average as an \<open>int\<close>,
  since the mean of one integer is integral).
\<close>

theorem compute_statistics_single:
  "compute_statistics [f] =
     Inr \<lparr>count = 1, min_length = length_int f, max_length = length_int f,
          avg_length = PyInt (length_int f)\<rparr>"
  by (simp add: compute_statistics_def summarize_nonempty mean_nonempty exact_mean_def)

section \<open>Properties of the loader\<close>



text \<open>
  C4. When the file parses to an object, \<^verbatim>\<open>load_facts\<close> returns the empty list if
  the object has no key \<^verbatim>\<open>facts\<close>, and otherwise exactly the value stored under that
  key (a list is returned as it is, element by element in the same order).
\<close>

theorem load_facts_key:
  assumes "rd json_path = Inr (JObject kvs)"
  shows "(map_of kvs ''facts'' = None \<longrightarrow> load_facts rd json_path = Inr (JArray []))
       \<and> (\<forall>v. map_of kvs ''facts'' = Some v \<longrightarrow> load_facts rd json_path = Inr v)"
  using assms by (simp add: load_facts_def dict_get_def)

theorem load_facts_key_witness:
  "load_facts (\<lambda>p. Inr other_doc) ''data/cat_facts.json'' = Inr (JArray [])
   \<and> load_facts (\<lambda>p. Inr three_doc) ''data/cat_facts.json'' = Inr three_array"
  using load_facts_key [of "\<lambda>p. Inr other_doc" "''data/cat_facts.json''"
      "[(''source'', JString ''catfact.ninja'')]"]
    load_facts_key [of "\<lambda>p. Inr three_doc" "''data/cat_facts.json''"
      "[(''facts'', three_array)]"]
  by (simp add: three_doc_def other_doc_def)

section \<open>The scenario of the specification\<close>

text \<open>
  C7. For the input with the three facts of lengths 17, 17 and 10, the loader returns the
  three facts and the statistics are count 3, minimum 10, maximum 17 and, as average, the
  binary64 value nearest to \<open>44 / 3\<close>, stored as it is; the format \<^verbatim>\<open>.2f\<close> prints it
  as \<^verbatim>\<open>14.67\<close>, and that is the line \<^verbatim>\<open>main\<close> prints.
\<close>

theorem scenario_statistics:
  "load_facts (\<lambda>p. Inr three_doc) ''data/cat_facts.json'' = Inr three_array
   \<and> as_facts three_array = Some three_facts
   \<and> compute_statistics three_facts =
       Inr \<lparr>count = 3, min_length = 10, max_length = 17,
            avg_length = PyFloat (8256599316845909 / 2 ^ 49)\<rparr>
   \<and> float_of_rat (44 / 3) = Inr (8256599316845909 / 2 ^ 49)
   \<and> \<bar>8256599316845909 / 2 ^ 49 - 44 / (3::rat)\<bar> < 1 / 10 ^ 15
   \<and> format_2f (PyFloat (8256599316845909 / 2 ^ 49)) = Inr ''14.67''
   \<and> stdout (snd (main ''/app'' (\<lambda>p. Inr three_doc) w0)) ! 8 = ''Average fact length: 14.67''"
  by code_simp

section \<open>Properties of the plotter\<close>

lemma on_current_last:
  "figures w = fs @ [(n, fig)] \<Longrightarrow> on_current g w = w\<lparr>figures := fs @ [(n, g fig)]\<rparr>"
  by (simp add: on_current_def)

lemma draw_chart:
  "plt_tight_layout (plt_ylabel ''Frequency'' (plt_xlabel ''Fact Length (characters)''
     (plt_title ''Distribution of Cat Fact Lengths'' (plt_hist lengths 10 (plt_figure w))))) =
   w\<lparr>figures := figures w @ [(Suc (fold max (map fst (figures w)) 0), chart lengths)]\<rparr>"
  by (simp add: plt_tight_layout_def plt_ylabel_def plt_xlabel_def plt_title_def plt_hist_def
      plt_figure_def on_current_last chart_def empty_figure_def)

lemma plot_length_histogram_cases:
  "plot_length_histogram facts p w =
    (let w6 = w\<lparr>figures := figures w @
                  [(Suc (fold max (map fst (figures w)) 0), chart (map length_int facts))]\<rparr>;
         d = dirname p;
         ds = (if d \<in> set (dirs w) then dirs w else dirs w @ [d])
     in if d = [] then (Inl FileNotFoundError, w6)
        else if d \<in> fst ` set (files w) then (Inl FileExistsError, w6)
        else (case savefig_target p of
                Inl e \<Rightarrow> (Inl e, w6\<lparr>dirs := ds\<rparr>)
              | Inr name \<Rightarrow>
                  if name \<in> set ds then (Inl IsADirectoryError, w6\<lparr>dirs := ds\<rparr>)
                  else if dirname name \<noteq> [] \<and> dirname name \<notin> set ds
                    then (Inl FileNotFoundError, w6\<lparr>dirs := ds\<rparr>)
                  else (Inr (),
                        w\<lparr>dirs := ds,
                          files := (name, chart (map length_int facts)) #
                                   filter (\<lambda>kv. fst kv \<noteq> name) (files w)\<rparr>)))"
  unfolding plot_length_histogram_def Let_def draw_chart
  by (auto simp add: os_makedirs_def plt_savefig_def plt_close_def Let_def split: sum.splits)

lemma plot_failure_keeps_figure:
  assumes "plot_length_histogram facts p w = (Inl e, w')"
  shows "figures w' = figures w @
           [(Suc (fold max (map fst (figures w)) 0), chart (map length_int facts))]"
  using assms
  by (auto simp add: plot_length_histogram_cases Let_def split: if_splits sum.splits)


text \<open>
  C5. The figure is not closed on every exit path. With the output path \<^verbatim>\<open>hist.png\<close>,
  which has no directory part, \<^verbatim>\<open>os.makedirs\<close> raises \<^verbatim>\<open>FileNotFoundError\<close>; the call
  ends there, \<^verbatim>\<open>plt.close()\<close> is not reached, and the figure the call opened is still
  open in a world that had none.
\<close>

theorem plot_failure_leaks_figure:
  "plot_length_histogram three_facts ''hist.png'' w0 =
     (Inl FileNotFoundError, w0\<lparr>figures := [(1, chart [17, 17, 10])]\<rparr>)
   \<and> figures w0 = []"
  by (simp add: plot_length_histogram_cases three_facts_def w0_def dirname_def slash_def Let_def)

section \<open>Properties of the entry point\<close>

subsection \<open>The report, the paths and the formats\<close>










subsection \<open>The paths of \<^verbatim>\<open>main\<close>\<close>



lemma stats_lines_nonempty: "stats_lines stats @ ys \<noteq> []"
  by (simp add: stats_lines_def)












section \<open>Properties of the statistics calculator over the store\<close>

lemma read_lengths_facts_at:
  "facts_at s elems = Some fs \<Longrightarrow> read_lengths s elems = Inr (map length_int fs)"
  by (induction elems arbitrary: fs) (auto split: if_splits cell.splits option.splits)

lemma facts_at_append:
  "facts_at s elems = Some fs \<Longrightarrow> facts_at (s @ new) elems = Some fs"
  by (induction elems arbitrary: fs)
     (auto simp add: nth_append split: if_splits cell.splits option.splits)

lemma compute_statistics_st_cases:
  assumes "a < length s" "s ! a = ListCell elems" "facts_at s elems = Some fs"
  shows "compute_statistics_st a s =
    (case compute_statistics fs of
       Inl e \<Rightarrow> (Inl e, s @ [IntsCell (map length_int fs)])
     | Inr st \<Rightarrow> (Inr (Suc (length s)), s @ [IntsCell (map length_int fs), StatsCell st]))"
  using assms
  by (simp add: compute_statistics_st_def compute_statistics_def read_lengths_facts_at Let_def
      split: sum.splits)

lemma compute_statistics_st_extends: "\<exists>new. snd (compute_statistics_st a s) = s @ new"
  by (auto simp add: compute_statistics_st_def Let_def split: cell.splits sum.splits)

text \<open>
  C10. \<^verbatim>\<open>compute_statistics\<close> leaves its argument as it is: after the call every cell
  that existed holds what it held, so the list and every fact in it are unchanged (the call
  only allocates). What it returns is determined by the lengths of the facts alone, and a
  second call on the same list returns an equal dictionary.
\<close>

theorem compute_statistics_frame:
  assumes a: "a < length s" and l: "s ! a = ListCell elems"
    and f: "facts_at s elems = Some facts"
  shows "take (length s) (snd (compute_statistics_st a s)) = s
    \<and> snd (compute_statistics_st a s) ! a = ListCell elems
    \<and> facts_at (snd (compute_statistics_st a s)) elems = Some facts
    \<and> returned (compute_statistics_st a s) =
        (case compute_statistics facts of Inl e \<Rightarrow> Inl e | Inr st \<Rightarrow> Inr (StatsCell st))
    \<and> returned (compute_statistics_st a (snd (compute_statistics_st a s))) =
        returned (compute_statistics_st a s)
    \<and> (\<forall>facts'. map length_int facts' = map length_int facts \<longrightarrow>
          compute_statistics facts' = compute_statistics facts)"
proof -
  obtain new where new: "snd (compute_statistics_st a s) = s @ new"
    using compute_statistics_st_extends by blast
  have c1: "take (length s) (snd (compute_statistics_st a s)) = s" by (simp add: new)
  have c2: "snd (compute_statistics_st a s) ! a = ListCell elems"
    using a l by (simp add: new nth_append)
  have c3: "facts_at (snd (compute_statistics_st a s)) elems = Some facts"
    unfolding new using f by (rule facts_at_append)
  have r: "returned (compute_statistics_st a s') =
        (case compute_statistics facts of Inl e \<Rightarrow> Inl e | Inr st \<Rightarrow> Inr (StatsCell st))"
    if "a < length s'" "s' ! a = ListCell elems" "facts_at s' elems = Some facts" for s'
    using that
    by (simp add: compute_statistics_st_cases returned_def nth_append split: sum.splits)
  have c4: "returned (compute_statistics_st a s) =
        (case compute_statistics facts of Inl e \<Rightarrow> Inl e | Inr st \<Rightarrow> Inr (StatsCell st))"
    using a l f by (rule r)
  have "a < length (snd (compute_statistics_st a s))" using a by (simp add: new)
  then have c5: "returned (compute_statistics_st a (snd (compute_statistics_st a s))) =
        returned (compute_statistics_st a s)"
    using r[OF _ c2 c3] c4 by simp
  have c6: "\<forall>facts'. map length_int facts' = map length_int facts \<longrightarrow>
          compute_statistics facts' = compute_statistics facts"
    by (simp add: compute_statistics_def)
  show ?thesis using c1 c2 c3 c4 c5 c6 by blast
qed

theorem compute_statistics_frame_witness:
  "take 4 (snd (compute_statistics_st 3 three_store)) = three_store
   \<and> snd (compute_statistics_st 3 three_store) ! 3 = ListCell [0, 1, 2]
   \<and> facts_at (snd (compute_statistics_st 3 three_store)) [0, 1, 2] = Some three_facts
   \<and> returned (compute_statistics_st 3 three_store) =
       Inr (StatsCell \<lparr>count = 3, min_length = 10, max_length = 17,
                        avg_length = PyFloat (8256599316845909 / 2 ^ 49)\<rparr>)
   \<and> returned (compute_statistics_st 3 (snd (compute_statistics_st 3 three_store))) =
       returned (compute_statistics_st 3 three_store)"
proof -
  have a: "3 < length three_store" by (simp add: three_store_def)
  have l: "three_store ! 3 = ListCell [0, 1, 2]" by (simp add: three_store_def)
  have f: "facts_at three_store [0, 1, 2] = Some three_facts"
    by (simp add: three_store_def three_facts_def)
  have st: "compute_statistics three_facts =
     Inr \<lparr>count = 3, min_length = 10, max_length = 17,
          avg_length = PyFloat (8256599316845909 / 2 ^ 49)\<rparr>"
    by code_simp
  have len: "length three_store = 4" by (simp add: three_store_def)
  show ?thesis
    using compute_statistics_frame[OF a l f] by (simp add: st len)
qed

end
